theory Spec2Isabelle
  imports Main
begin

unbundle bit_operations_syntax

section \<open>Errors\<close>

text \<open>
  The script signals every failure by an exception that it never catches. Each raise site
  is a constructor here; the comment gives the Python exception and where it is raised.
\<close>

datatype error =
    StatusUnavailable        \<comment> \<open>\<open>wg show\<close> exits non-zero, or \<open>assert lines\<close> fails\<close>
  | InterfaceNotFound        \<comment> \<open>\<open>Exception("Cannot find interface name.")\<close>\<close>
  | PublicKeyNotFound        \<comment> \<open>\<open>Exception("Cannot find server public key")\<close>\<close>
  | EmptyUsername            \<comment> \<open>\<open>assert username\<close> in \<open>get_user\<close>\<close>
  | KeyGenerationFailed      \<comment> \<open>\<open>wg genkey\<close> or \<open>wg pubkey\<close> exits non-zero\<close>
  | ConfigFileMissing        \<comment> \<open>\<open>assert assumed_file.is_file()\<close>\<close>
  | AddressDirectiveMissing  \<comment> \<open>\<open>Exception("Address not found!")\<close>\<close>
  | ValueError               \<comment> \<open>raised by \<open>ipaddress.ip_address\<close> and \<open>ipaddress.ip_network\<close>\<close>
  | IndexError               \<comment> \<open>indexing an empty list\<close>
  | PoolExhausted            \<comment> \<open>\<open>Exception("All valid IPs are used.")\<close>\<close>
  | ArtifactWriteFailed      \<comment> \<open>\<open>OSError\<close> from \<open>os.mkdir\<close> or from writing the file\<close>
  | RegistrationFailed       \<comment> \<open>\<open>assert process == 0, "inserting new peer failed."\<close>\<close>
  | PersistFailed            \<comment> \<open>\<open>assert process == 0, "saving new config failed."\<close>\<close>

section \<open>Python string operations used by the script\<close>

text \<open>
  A Python \<open>str\<close> is modelled as a \<open>string\<close>; a character stands for the code point of
  the same number, so the model covers text whose code points are below 256.
  \<open>isspace\<close> lists the code points below 256 that \<open>str.isspace\<close> accepts.
\<close>

definition isspace :: "char \<Rightarrow> bool" where
  "isspace c =
     (let n = (of_char c :: nat)
      in (9 \<le> n \<and> n \<le> 13) \<or> (28 \<le> n \<and> n \<le> 32) \<or> n = 133 \<or> n = 160)"

definition isdigit :: "char \<Rightarrow> bool" where
  \<comment> \<open>\<open>s.isascii() and s.isdigit()\<close> for one character: the digits 0 to 9\<close>
  "isdigit c = (let n = (of_char c :: nat) in 48 \<le> n \<and> n \<le> 57)"

definition startswith :: "string \<Rightarrow> string \<Rightarrow> bool" where
  \<comment> \<open>\<open>s.startswith(p)\<close>\<close>
  "startswith s p = (take (length p) s = p)"

fun str_contains :: "string \<Rightarrow> string \<Rightarrow> bool" where
  \<comment> \<open>\<open>sub in s\<close>\<close>
  "str_contains sub [] = (sub = [])"
| "str_contains sub (c # cs) = (startswith (c # cs) sub \<or> str_contains sub cs)"

fun split_ws :: "string \<Rightarrow> string \<Rightarrow> string list" where
  \<comment> \<open>\<open>s.split()\<close>: the maximal runs of non-whitespace; \<open>cur\<close> is the run being read\<close>
  "split_ws cur [] = (if cur = [] then [] else [cur])"
| "split_ws cur (c # cs) =
     (if isspace c then (if cur = [] then split_ws [] cs else cur # split_ws [] cs)
      else split_ws (cur @ [c]) cs)"

definition split :: "string \<Rightarrow> string list" where
  "split s = split_ws [] s"

fun split_on :: "char \<Rightarrow> string \<Rightarrow> string \<Rightarrow> string list" where
  \<comment> \<open>\<open>s.split(sep)\<close> for a separator of one character; never returns the empty list\<close>
  "split_on sep cur [] = [cur]"
| "split_on sep cur (c # cs) =
     (if c = sep then cur # split_on sep [] cs else split_on sep (cur @ [c]) cs)"

definition split_sep :: "char \<Rightarrow> string \<Rightarrow> string list" where
  "split_sep sep s = split_on sep [] s"

definition strip :: "string \<Rightarrow> string" where
  \<comment> \<open>\<open>s.strip()\<close>\<close>
  "strip s = rev (dropWhile isspace (rev (dropWhile isspace s)))"

definition last_item :: "'a list \<Rightarrow> error + 'a" where
  \<comment> \<open>\<open>xs[-1]\<close>\<close>
  "last_item xs = (if xs = [] then Inl IndexError else Inr (last xs))"

definition first_item :: "'a list \<Rightarrow> error + 'a" where
  \<comment> \<open>\<open>xs[0]\<close>\<close>
  "first_item xs = (case xs of [] \<Rightarrow> Inl IndexError | x # _ \<Rightarrow> Inr x)"

definition int_of_digits :: "string \<Rightarrow> nat" where
  \<comment> \<open>\<open>int(s, 10)\<close> on a string of decimal digits\<close>
  "int_of_digits s = foldl (\<lambda>acc c. 10 * acc + (of_char c - 48)) 0 s"

fun str_nat :: "nat \<Rightarrow> string" where
  \<comment> \<open>\<open>str(n)\<close> for a non-negative integer\<close>
  "str_nat n =
     (if n < 10 then [''0123456789'' ! n]
      else str_nat (n div 10) @ [''0123456789'' ! (n mod 10)])"

declare str_nat.simps [simp del]

fun join :: "string \<Rightarrow> string list \<Rightarrow> string" where
  \<comment> \<open>\<open>sep.join(xs)\<close>\<close>
  "join sep [] = []"
| "join sep [x] = x"
| "join sep (x # y # ys) = x @ sep @ join sep (y # ys)"

definition bind :: "error + 'a \<Rightarrow> ('a \<Rightarrow> error + 'b) \<Rightarrow> error + 'b" where
  \<comment> \<open>sequencing: an exception of the first step skips the rest\<close>
  "bind m f = (case m of Inl e \<Rightarrow> Inl e | Inr x \<Rightarrow> f x)"

section \<open>The \<open>ipaddress\<close> module, IPv4 part\<close>

text \<open>
  An \<open>IPv4Address\<close> is its integer \<open>_ip\<close>; two addresses are equal when their integers
  are. An \<open>IPv4Network\<close> is its network address and prefix length; netmask, hostmask and
  broadcast address are computed from them as the library's properties do.
  The script's annotations give \<open>find_address\<close> the type
  \<open>tuple[IPv4Network, IPv4Address]\<close> and the used set the type \<open>set[IPv4Address]\<close>:
  the model follows the IPv4 classes, and a string that no IPv4 parser accepts is a
  \<open>ValueError\<close> here (the library would try its IPv6 classes next). The functions
  follow the source of the library's IPv4 classes, in which an octet with a leading zero
  is rejected and \<open>hosts()\<close> of a /32 is the single address.
\<close>

type_synonym IPv4Address = nat

record IPv4Network =
  network_address :: IPv4Address
  prefixlen :: nat

definition max_prefixlen :: nat where
  "max_prefixlen = 32"

definition ALL_ONES :: nat where
  "ALL_ONES = 2 ^ 32 - 1"

definition parse_octet :: "string \<Rightarrow> nat option" where
  "parse_octet octet_str =
     (if octet_str = [] then None
      else if \<not> list_all isdigit octet_str then None
      else if length octet_str > 3 then None
      else if octet_str \<noteq> ''0'' \<and> hd octet_str = CHR ''0'' then None
      else (let octet_int = int_of_digits octet_str
            in if octet_int > 255 then None else Some octet_int))"

definition ip_int_from_string :: "string \<Rightarrow> nat option" where
  "ip_int_from_string ip_str =
     (if ip_str = [] then None
      else (let octets = split_sep CHR ''.'' ip_str
            in if length octets \<noteq> 4 then None
               else (case those (map parse_octet octets) of
                       None \<Rightarrow> None
                     | Some bs \<Rightarrow> Some (foldl (\<lambda>acc b. 256 * acc + b) 0 bs))))"

definition IPv4Address_of :: "string \<Rightarrow> IPv4Address option" where
  \<comment> \<open>\<open>IPv4Address(addr_str)\<close>\<close>
  "IPv4Address_of addr_str =
     (if CHR ''/'' \<in> set addr_str then None else ip_int_from_string addr_str)"

definition ip_address :: "string \<Rightarrow> error + IPv4Address" where
  "ip_address address =
     (case IPv4Address_of address of Some a \<Rightarrow> Inr a | None \<Rightarrow> Inl ValueError)"

definition string_from_ip_int :: "nat \<Rightarrow> string" where
  \<comment> \<open>\<open>'.'.join(map(str, ip_int.to_bytes(4, 'big')))\<close>\<close>
  "string_from_ip_int ip_int =
     join ''.'' (map str_nat
       [ip_int div 2 ^ 24 mod 256, ip_int div 2 ^ 16 mod 256,
        ip_int div 2 ^ 8 mod 256, ip_int mod 256])"

definition ip_int_from_prefix :: "nat \<Rightarrow> nat" where
  \<comment> \<open>\<open>cls._ALL_ONES ^ (cls._ALL_ONES >> prefixlen)\<close>\<close>
  "ip_int_from_prefix p = ALL_ONES XOR (drop_bit p ALL_ONES)"

definition count_righthand_zero_bits :: "nat \<Rightarrow> nat \<Rightarrow> nat" where
  \<comment> \<open>the number of zero bits at the right of \<open>number\<close>, at most \<open>bits\<close>\<close>
  "count_righthand_zero_bits number bits =
     (if number = 0 then bits
      else min bits (length (takeWhile (\<lambda>i. \<not> bit number i) [0..<bits])))"

definition prefix_from_ip_int :: "nat \<Rightarrow> nat option" where
  "prefix_from_ip_int ip_int =
     (let trailing_zeroes = count_righthand_zero_bits ip_int max_prefixlen;
          p = max_prefixlen - trailing_zeroes;
          leading_ones = drop_bit trailing_zeroes ip_int;
          all_ones = 2 ^ p - 1
      in if leading_ones \<noteq> all_ones then None else Some p)"

definition prefix_from_prefix_string :: "string \<Rightarrow> nat option" where
  "prefix_from_prefix_string prefixlen_str =
     (if \<not> (prefixlen_str \<noteq> [] \<and> list_all isdigit prefixlen_str) then None
      else (let p = int_of_digits prefixlen_str
            in if \<not> p \<le> max_prefixlen then None else Some p))"

definition prefix_from_ip_string :: "string \<Rightarrow> nat option" where
  "prefix_from_ip_string ip_str =
     (case ip_int_from_string ip_str of
        None \<Rightarrow> None
      | Some ip_int \<Rightarrow>
          (case prefix_from_ip_int ip_int of
             Some p \<Rightarrow> Some p
           | None \<Rightarrow> prefix_from_ip_int (ip_int XOR ALL_ONES)))"

definition make_netmask :: "string option \<Rightarrow> nat option" where
  \<comment> \<open>the prefix length of \<open>_make_netmask\<close>; \<open>None\<close> as argument is the integer 32 that
      \<open>_split_addr_prefix\<close> supplies when the string has no mask\<close>
  "make_netmask arg =
     (case arg of
        None \<Rightarrow> Some max_prefixlen
      | Some s \<Rightarrow>
          (case prefix_from_prefix_string s of
             Some p \<Rightarrow> Some p
           | None \<Rightarrow> prefix_from_ip_string s))"

definition split_addr_prefix :: "string \<Rightarrow> (string \<times> string option) option" where
  \<comment> \<open>\<open>_split_optional_netmask\<close> followed by \<open>_split_addr_prefix\<close>\<close>
  "split_addr_prefix address =
     (case split_sep CHR ''/'' address of
        [a] \<Rightarrow> Some (a, None)
      | [a, m] \<Rightarrow> Some (a, Some m)
      | _ \<Rightarrow> None)"

definition ip_network :: "string \<Rightarrow> bool \<Rightarrow> error + IPv4Network" where
  \<comment> \<open>\<open>ipaddress.ip_network(address, strict)\<close>\<close>
  "ip_network address strict =
     (case split_addr_prefix address of
        None \<Rightarrow> Inl ValueError
      | Some (addr, msk) \<Rightarrow>
          (case IPv4Address_of addr of
             None \<Rightarrow> Inl ValueError
           | Some packed \<Rightarrow>
               (case make_netmask msk of
                  None \<Rightarrow> Inl ValueError
                | Some p \<Rightarrow>
                    (let netmask = ip_int_from_prefix p
                     in if packed AND netmask \<noteq> packed
                        then (if strict then Inl ValueError
                              else Inr \<lparr>network_address = packed AND netmask, prefixlen = p\<rparr>)
                        else Inr \<lparr>network_address = packed, prefixlen = p\<rparr>))))"

definition netmask :: "IPv4Network \<Rightarrow> nat" where
  "netmask n = ip_int_from_prefix (prefixlen n)"

definition hostmask :: "IPv4Network \<Rightarrow> nat" where
  "hostmask n = netmask n XOR ALL_ONES"

definition broadcast_address :: "IPv4Network \<Rightarrow> IPv4Address" where
  "broadcast_address n = network_address n OR hostmask n"

definition hosts :: "IPv4Network \<Rightarrow> IPv4Address list" where
  \<comment> \<open>\<open>hosts()\<close>: \<open>range(network + 1, broadcast)\<close>; the constructor replaces it by
      \<open>__iter__\<close> (\<open>range(network, broadcast + 1)\<close>) for a /31 and by the single
      address for a /32, where the network address is the address given\<close>
  "hosts n =
     (if prefixlen n = max_prefixlen - 1
        then [network_address n ..< broadcast_address n + 1]
      else if prefixlen n = max_prefixlen
        then [network_address n]
      else [network_address n + 1 ..< broadcast_address n])"

section \<open>The allocation core of the script\<close>

fun first_unused :: "IPv4Address set \<Rightarrow> IPv4Address list \<Rightarrow> error + IPv4Address" where
  \<comment> \<open>the \<open>for\<close> loop of \<open>find_unused_ip\<close> over the candidates\<close>
  "first_unused used_ips [] = Inl PoolExhausted"
| "first_unused used_ips (new_ip # rest) =
     (if new_ip \<notin> used_ips then Inr new_ip else first_unused used_ips rest)"

definition find_unused_ip :: "IPv4Address set \<Rightarrow> IPv4Network \<Rightarrow> error + IPv4Address" where
  "find_unused_ip used_ips address = first_unused used_ips (hosts address)"

text \<open>
  The file system that the script reads is a map from a path to the lines that
  \<open>readlines()\<close> returns (each with its line end); a path that is no file maps to
  \<open>None\<close>.
\<close>

type_synonym files = "string \<Rightarrow> string list option"

fun find_interface :: "string list \<Rightarrow> error + string" where
  "find_interface [] = Inl InterfaceNotFound"
| "find_interface (line # rest) =
     (if startswith line ''interface: '' then last_item (split line)
      else find_interface rest)"

fun find_server_public_key :: "string list \<Rightarrow> error + string" where
  "find_server_public_key [] = Inl PublicKeyNotFound"
| "find_server_public_key (line # rest) =
     (if startswith line ''public key: '' then last_item (split line)
      else find_server_public_key rest)"

definition parse_address_line :: "string \<Rightarrow> error + IPv4Network \<times> IPv4Address" where
  \<comment> \<open>the body of the \<open>if\<close> in \<open>find_address\<close>\<close>
  "parse_address_line line =
     bind (last_item (split line)) (\<lambda>ip.
     bind (ip_network ip False) (\<lambda>net.
     bind (first_item (split_sep CHR ''/'' ip)) (\<lambda>host.
     bind (ip_address host) (\<lambda>addr. Inr (net, addr)))))"

fun find_address_lines :: "string list \<Rightarrow> error + IPv4Network \<times> IPv4Address" where
  \<comment> \<open>the \<open>for\<close> loop of \<open>find_address\<close> over the lines of the file\<close>
  "find_address_lines [] = Inl AddressDirectiveMissing"
| "find_address_lines (line # rest) =
     (if startswith line ''Address'' then parse_address_line line
      else find_address_lines rest)"

definition find_address :: "files \<Rightarrow> string \<Rightarrow> error + IPv4Network \<times> IPv4Address" where
  "find_address fs interface_name =
     (case fs (''/etc/wireguard/'' @ interface_name @ ''.conf'') of
        None \<Rightarrow> Inl ConfigFileMissing
      | Some config \<Rightarrow> find_address_lines config)"

fun find_using_ips :: "string list \<Rightarrow> error + string list" where
  "find_using_ips [] = Inr []"
| "find_using_ips (line # rest) =
     (if startswith line ''allowed ips'' \<and> \<not> str_contains ''(none)'' line
      then bind (last_item (split line)) (\<lambda>ip.
           bind (find_using_ips rest) (\<lambda>ips. Inr (ip # ips)))
      else find_using_ips rest)"

fun ip_addresses :: "string list \<Rightarrow> error + IPv4Address set" where
  \<comment> \<open>the set comprehension of \<open>make_new_ip\<close>:
      \<open>{ipaddress.ip_address(ip.split("/")[0]) for ip in ...}\<close>\<close>
  "ip_addresses [] = Inr {}"
| "ip_addresses (ip # rest) =
     bind (first_item (split_sep CHR ''/'' ip)) (\<lambda>host.
     bind (ip_address host) (\<lambda>a.
     bind (ip_addresses rest) (\<lambda>used. Inr (insert a used))))"

definition used_ips_of :: "IPv4Address \<Rightarrow> string list \<Rightarrow> error + IPv4Address set" where
  \<comment> \<open>the set \<open>used_ips\<close> of \<open>make_new_ip\<close> after \<open>used_ips.add(address_as_ip)\<close>\<close>
  "used_ips_of address_as_ip wg_output =
     bind (find_using_ips wg_output) (\<lambda>ips.
     bind (ip_addresses ips) (\<lambda>used. Inr (insert address_as_ip used)))"

definition make_new_ip :: "files \<Rightarrow> string \<Rightarrow> string list \<Rightarrow> error + string" where
  "make_new_ip fs interface_name wg_output =
     bind (find_address fs interface_name) (\<lambda>(address, address_as_ip).
     bind (used_ips_of address_as_ip wg_output) (\<lambda>used_ips.
     bind (find_unused_ip used_ips address) (\<lambda>new_ip.
     Inr (string_from_ip_int new_ip @ ''/32''))))"

section \<open>The pipeline and its effects\<close>

text \<open>
  What the script does to the outside is recorded as a trace of events, in the order in
  which they happen: a process started with its argument vector, a shell command, the
  prompt, and the writes to the file system. What the outside answers is a \<open>world\<close>:
  the output of each command (\<open>None\<close> when \<open>check_output\<close> raises because
  the command exits non-zero), the line typed at the prompt, the files under
  \<open>/etc/wireguard\<close>, whether \<open>os.mkdir\<close> and the write succeed, and the exit
  status of the two commands started with \<open>subprocess.call\<close>. Each command runs at
  most once in a run, so one answer per command is enough. \<open>check_requirements\<close>,
  which the script calls before \<open>main\<close>, is taken to have passed: the programs are
  installed and the user is root.
\<close>

datatype event =
    Run "string list"          \<comment> \<open>\<open>subprocess\<close> with an argument vector\<close>
  | Shell string               \<comment> \<open>\<open>subprocess.call(..., shell=True)\<close>\<close>
  | Prompt string              \<comment> \<open>\<open>input(prompt)\<close>\<close>
  | Mkdir string
  | Chdir string
  | WriteFile string string    \<comment> \<open>path and content\<close>

record world =
  wg_show_stdout :: "string option"
  input_line :: string
  wg_genkey_stdout :: "string option"
  wg_pubkey_stdout :: "string \<Rightarrow> string option"
  etc_files :: files
  mkdir_ok :: "string \<Rightarrow> bool"
  write_ok :: "string \<Rightarrow> bool"
  wg_set_status :: int
  wg_quick_save_status :: int

type_synonym 'a io = "event list \<Rightarrow> (error + 'a) \<times> event list"

definition io_return :: "'a \<Rightarrow> 'a io" where
  "io_return x tr = (Inr x, tr)"

definition io_raise :: "error \<Rightarrow> 'a io" where
  "io_raise e tr = (Inl e, tr)"

definition io_bind :: "'a io \<Rightarrow> ('a \<Rightarrow> 'b io) \<Rightarrow> 'b io" where
  "io_bind m f tr = (case m tr of (Inl e, tr') \<Rightarrow> (Inl e, tr') | (Inr x, tr') \<Rightarrow> f x tr')"

definition emit :: "event \<Rightarrow> unit io" where
  "emit ev tr = (Inr (), tr @ [ev])"

definition lift :: "error + 'a \<Rightarrow> 'a io" where
  \<comment> \<open>a step without effect\<close>
  "lift r tr = (r, tr)"

definition check_output :: "string list \<Rightarrow> string option \<Rightarrow> error \<Rightarrow> string io" where
  \<comment> \<open>\<open>subprocess.check_output(argv, text=True)\<close>; \<open>err\<close> names the failure\<close>
  "check_output argv out err =
     io_bind (emit (Run argv)) (\<lambda>_.
     case out of None \<Rightarrow> io_raise err | Some s \<Rightarrow> io_return s)"

definition call :: "string list \<Rightarrow> int \<Rightarrow> int io" where
  \<comment> \<open>\<open>subprocess.call(argv)\<close>: the exit status is returned, never raised\<close>
  "call argv status = io_bind (emit (Run argv)) (\<lambda>_. io_return status)"

definition wg_show_lines :: "string \<Rightarrow> string list" where
  \<comment> \<open>the list \<open>lines\<close> of \<open>get_wg_show_output\<close>\<close>
  "wg_show_lines raw_output =
     map strip (filter (\<lambda>line. line \<noteq> []) (split_sep CHR 0x0A raw_output))"

definition get_wg_show_output :: "world \<Rightarrow> string list io" where
  "get_wg_show_output w =
     io_bind (check_output [''wg'', ''show''] (wg_show_stdout w) StatusUnavailable)
       (\<lambda>raw_output.
     let lines = wg_show_lines raw_output
     in if lines = [] then io_raise StatusUnavailable else io_return lines)"

definition get_user :: "world \<Rightarrow> string io" where
  "get_user w =
     io_bind (emit (Prompt ''Enter Username: '')) (\<lambda>_.
     let username = strip (input_line w)
     in if username = [] then io_raise EmptyUsername else io_return username)"

definition gen_private_key :: "world \<Rightarrow> string io" where
  "gen_private_key w =
     io_bind (check_output [''wg'', ''genkey''] (wg_genkey_stdout w) KeyGenerationFailed)
       (\<lambda>out. io_return (strip out))"

definition gen_public_key :: "world \<Rightarrow> string \<Rightarrow> string io" where
  "gen_public_key w private_key =
     io_bind (emit (Run [''echo'', private_key])) (\<lambda>_.
     io_bind (check_output [''wg'', ''pubkey''] (wg_pubkey_stdout w private_key)
                KeyGenerationFailed) (\<lambda>out.
     io_return (strip out)))"

definition ADDRESS :: string where
  "ADDRESS = ''<URI>:<PORT>''"

definition DNS :: string where
  "DNS = ''1.1.1.1''"

definition make_new_config_file :: "string \<Rightarrow> string \<Rightarrow> string \<Rightarrow> string" where
  \<comment> \<open>the dedented text, for values that contain no line break; the line of blanks
      between the two sections is emptied by \<open>textwrap.dedent\<close>\<close>
  "make_new_config_file address private_key sever_public_key =
     join [CHR 0x0A]
       [''[Interface]'',
        ''Address = '' @ address,
        ''PrivateKey = '' @ private_key,
        ''DNS = '' @ DNS,
        [],
        ''[Peer]'',
        ''PublicKey = '' @ sever_public_key,
        ''AllowedIPs = 0.0.0.0/0'',
        ''Endpoint = '' @ ADDRESS]"

definition make_qr_code :: "string \<Rightarrow> unit io" where
  "make_qr_code username =
     emit (Shell (''qrencode -o '' @ username @ ''.png < '' @ username @ ''.conf''))"

definition make_configs :: "world \<Rightarrow> string \<Rightarrow> string \<Rightarrow> string \<Rightarrow> string \<Rightarrow> unit io" where
  "make_configs w username ip private_key server_public_key =
     (let config = make_new_config_file ip private_key server_public_key
      in io_bind (emit (Mkdir username)) (\<lambda>_.
         if \<not> mkdir_ok w username then io_raise ArtifactWriteFailed
         else io_bind (emit (Chdir username)) (\<lambda>_.
              io_bind (emit (WriteFile (username @ ''.conf'') config)) (\<lambda>_.
              if \<not> write_ok w (username @ ''.conf'') then io_raise ArtifactWriteFailed
              else make_qr_code username))))"

definition insert_new_peer :: "world \<Rightarrow> string \<Rightarrow> string \<Rightarrow> string \<Rightarrow> unit io" where
  "insert_new_peer w public_key allowed_ips interface_name =
     io_bind (call [''wg'', ''set'', interface_name, ''peer'', public_key,
                    ''allowed-ips'', allowed_ips] (wg_set_status w)) (\<lambda>process.
     if process = 0 then io_return () else io_raise RegistrationFailed)"

definition save_new_config :: "world \<Rightarrow> string \<Rightarrow> unit io" where
  "save_new_config w interface_name =
     io_bind (call [''wg-quick'', ''save'', interface_name] (wg_quick_save_status w))
       (\<lambda>process.
     if process = 0 then io_return () else io_raise PersistFailed)"

definition main :: "world \<Rightarrow> unit io" where
  "main w =
     io_bind (get_wg_show_output w) (\<lambda>wg_show_output.
     io_bind (lift (find_interface wg_show_output)) (\<lambda>interface_name.
     io_bind (lift (find_server_public_key wg_show_output)) (\<lambda>server_public_key.
     io_bind (get_user w) (\<lambda>username.
     io_bind (gen_private_key w) (\<lambda>private_key.
     io_bind (gen_public_key w private_key) (\<lambda>public_key.
     io_bind (lift (make_new_ip (etc_files w) interface_name wg_show_output)) (\<lambda>ip.
     io_bind (make_configs w username ip private_key server_public_key) (\<lambda>_.
     io_bind (insert_new_peer w public_key ip interface_name) (\<lambda>_.
     save_new_config w interface_name)))))))))"

text \<open>
  The events that change something: the client artifacts (directory, configuration
  file, QR code), the registration of the peer on the live interface, and the save of
  the live state to the configuration file.
\<close>

fun is_artifact :: "event \<Rightarrow> bool" where
  "is_artifact (Mkdir _) = True"
| "is_artifact (Chdir _) = True"
| "is_artifact (WriteFile _ _) = True"
| "is_artifact (Shell _) = True"
| "is_artifact (Run _) = False"
| "is_artifact (Prompt _) = False"

fun is_registration :: "event \<Rightarrow> bool" where
  "is_registration (Run argv) = (take 2 argv = [''wg'', ''set''])"
| "is_registration _ = False"

fun is_persist :: "event \<Rightarrow> bool" where
  "is_persist (Run argv) = (take 2 argv = [''wg-quick'', ''save''])"
| "is_persist _ = False"

definition side_effect :: "event \<Rightarrow> bool" where
  "side_effect e = (is_artifact e \<or> is_registration e \<or> is_persist e)"

text \<open>
  The set that the claims call \<open>hosts(S)\<close>: the addresses of the subnet strictly
  between its network address and its broadcast address.
\<close>

definition usable_hosts :: "IPv4Network \<Rightarrow> IPv4Address set" where
  "usable_hosts S = {network_address S <..< broadcast_address S}"

text \<open>
  The allowed addresses of all peers, as the status output lists them. A line that starts
  with \<open>allowed ips\<close> lists the peer's allowed addresses after the key, separated by
  commas and blanks; the address of a field is what stands before its slash. The
  placeholder \<open>(none)\<close> is no address and adds nothing. This set is written from the
  meaning of the status output, not from \<open>find_using_ips\<close>.
\<close>

definition allowed_fields :: "string \<Rightarrow> string list" where
  "allowed_fields line =
     filter (\<lambda>field. field \<noteq> []) (concat (map (split_sep CHR '','') (drop 2 (split line))))"

definition field_address :: "string \<Rightarrow> IPv4Address set" where
  "field_address field =
     (case bind (first_item (split_sep CHR ''/'' field)) ip_address of
        Inr a \<Rightarrow> {a}
      | Inl _ \<Rightarrow> {})"

definition line_allowed_addresses :: "string \<Rightarrow> IPv4Address set" where
  "line_allowed_addresses line =
     (if startswith line ''allowed ips''
      then \<Union> (set (map field_address (allowed_fields line)))
      else {})"

definition peers_allowed_addresses :: "string list \<Rightarrow> IPv4Address set" where
  "peers_allowed_addresses wg_output =
     \<Union> (set (map line_allowed_addresses wg_output))"

section \<open>Example runs\<close>

text \<open>
  A configuration file for \<open>wg0\<close> with a given \<open>Address\<close> line, a status
  output with one peer, and a world in which every command succeeds except that
  \<open>wg set\<close> exits with the given status.
\<close>

definition example_conf :: "string \<Rightarrow> files" where
  "example_conf address_line =
     (\<lambda>p. if p = ''/etc/wireguard/wg0.conf''
          then Some [''[Interface]\<newline>'', address_line, ''ListenPort = 51820\<newline>'']
          else None)"

definition example_status :: string where
  "example_status =
     ''interface: wg0\<newline>  public key: c2VydmVyLXB1YmxpYy1rZXk=\<newline>  listening port: 51820\<newline>\<newline>peer: cGVlci1vbmU=\<newline>  allowed ips: 10.10.50.2/32\<newline>''"

definition example_world :: "string \<Rightarrow> string \<Rightarrow> int \<Rightarrow> world" where
  "example_world status address_line set_status =
     \<lparr>wg_show_stdout = Some status,
      input_line = ''alice'',
      wg_genkey_stdout = Some ''cHJpdmF0ZS1rZXk=\<newline>'',
      wg_pubkey_stdout = (\<lambda>_. Some ''cHVibGljLWtleQ==\<newline>''),
      etc_files = example_conf address_line,
      mkdir_ok = (\<lambda>_. True),
      write_ok = (\<lambda>_. True),
      wg_set_status = set_status,
      wg_quick_save_status = 0\<rparr>"

section \<open>The allocator\<close>

lemma first_unused_exhausted:
  "first_unused U xs = Inl e \<longleftrightarrow> e = PoolExhausted \<and> set xs \<subseteq> U"
  by (induction xs) auto

lemma first_unused_Inr: "first_unused U xs = Inr a \<Longrightarrow> a \<in> set xs \<and> a \<notin> U"
  by (induction xs) (auto split: if_splits)

lemma first_unused_least:
  "sorted xs \<Longrightarrow> first_unused U xs = Inr a \<Longrightarrow> b \<in> set xs \<Longrightarrow> b \<notin> U \<Longrightarrow> a \<le> b"
  by (induction xs) (auto split: if_splits)

lemma first_unused_total: "\<not> set xs \<subseteq> U \<Longrightarrow> \<exists>a. first_unused U xs = Inr a"
  by (induction xs) auto

lemma hosts_sorted: "sorted (hosts S)"
  unfolding hosts_def by (simp del: upt_Suc)

lemma hostmask_eq: "hostmask S = mask (32 - prefixlen S)"
proof -
  have "(a XOR d) XOR a = d" for a d :: nat
    by (rule bit_eqI) (auto simp add: bit_xor_iff)
  then have "hostmask S = drop_bit (prefixlen S) ALL_ONES"
    by (simp add: hostmask_def netmask_def ip_int_from_prefix_def)
  also have "ALL_ONES = mask 32"
    by (simp add: ALL_ONES_def mask_eq_exp_minus_1)
  finally show ?thesis
    by (simp add: drop_bit_mask_eq)
qed

lemma hostmask_31: "prefixlen S = 31 \<Longrightarrow> hostmask S = 1"
  by (simp add: hostmask_eq)

lemma hostmask_32: "prefixlen S = 32 \<Longrightarrow> hostmask S = 0"
  by (simp add: hostmask_eq)

lemma hostmask_30: "prefixlen S = 30 \<Longrightarrow> hostmask S = 3"
  by (simp add: hostmask_eq mask_eq_exp_minus_1)

lemma usable_hosts_31: "prefixlen S = 31 \<Longrightarrow> usable_hosts S = {}"
  by (auto simp add: usable_hosts_def broadcast_address_def hostmask_31 or_one_eq or_Suc_0_eq)

lemma usable_hosts_32: "prefixlen S = 32 \<Longrightarrow> usable_hosts S = {}"
  by (auto simp add: usable_hosts_def broadcast_address_def hostmask_32)

lemma set_hosts:
  "prefixlen S \<noteq> 31 \<Longrightarrow> prefixlen S \<noteq> 32 \<Longrightarrow> set (hosts S) = usable_hosts S"
  by (auto simp add: hosts_def usable_hosts_def max_prefixlen_def)

lemma find_unused_ip_exhausted_iff:
  "find_unused_ip U S = Inl PoolExhausted \<longleftrightarrow> set (hosts S) \<subseteq> U"
  by (simp add: find_unused_ip_def first_unused_exhausted)

lemma find_unused_ip_first_free:
  assumes "\<not> set (hosts S) \<subseteq> U"
  shows "\<exists>a. find_unused_ip U S = Inr a \<and> a \<in> set (hosts S) - U
           \<and> (\<forall>b \<in> set (hosts S) - U. a \<le> b)"
proof -
  obtain a where a: "first_unused U (hosts S) = Inr a"
    using assms first_unused_total by blast
  then show ?thesis
    using first_unused_Inr [OF a] first_unused_least [OF hosts_sorted a]
    by (auto simp add: find_unused_ip_def)
qed

text \<open>
  Claim C1. For every subnet \<open>S\<close> and every set \<open>U\<close> of used addresses that lies within
  \<open>hosts(S)\<close> and has fewer elements, \<open>find_unused_ip\<close> returns an address: it is in
  \<open>hosts(S)\<close>, it is not in \<open>U\<close>, and no address of \<open>hosts(S)\<close> outside \<open>U\<close> is
  smaller. \<open>hosts(S)\<close> is the range without the network and the broadcast address; it is
  empty for a /31 and a /32, which therefore have no such \<open>U\<close>.
\<close>

theorem find_unused_ip_smallest:
  assumes "U \<subseteq> usable_hosts S" and "card U < card (usable_hosts S)"
  shows "\<exists>a. find_unused_ip U S = Inr a \<and> a \<in> usable_hosts S - U
           \<and> (\<forall>b \<in> usable_hosts S - U. a \<le> b)"
proof -
  have ne: "usable_hosts S \<noteq> {}"
    using assms(2) by auto
  then have p: "prefixlen S \<noteq> 31" "prefixlen S \<noteq> 32"
    using usable_hosts_31 usable_hosts_32 by blast+
  then have eq: "set (hosts S) = usable_hosts S"
    by (rule set_hosts)
  have "U \<noteq> usable_hosts S"
    using assms(2) by auto
  with assms(1) have "\<not> set (hosts S) \<subseteq> U"
    unfolding eq by blast
  then obtain a where a: "first_unused U (hosts S) = Inr a"
    using first_unused_total by blast
  have "a \<in> usable_hosts S - U"
    using first_unused_Inr [OF a] eq by simp
  moreover have "\<forall>b \<in> usable_hosts S - U. a \<le> b"
    using first_unused_least [OF hosts_sorted a] eq by auto
  ultimately show ?thesis
    using a by (simp add: find_unused_ip_def)
qed

theorem find_unused_ip_smallest_witness:
  "{168440321} \<subseteq> usable_hosts \<lparr>network_address = 168440320, prefixlen = 30\<rparr>
   \<and> card {168440321 :: nat} < card (usable_hosts \<lparr>network_address = 168440320, prefixlen = 30\<rparr>)
   \<and> find_unused_ip {168440321} \<lparr>network_address = 168440320, prefixlen = 30\<rparr> = Inr 168440322"
proof -
  let ?S = "\<lparr>network_address = 168440320, prefixlen = 30\<rparr>"
  have b: "broadcast_address ?S = 168440323"
    by (simp add: broadcast_address_def hostmask_30)
  have h1: "{168440321} \<subseteq> usable_hosts ?S"
    by (simp add: usable_hosts_def b)
  have h2: "card {168440321 :: nat} < card (usable_hosts ?S)"
    by (simp add: usable_hosts_def b)
  from find_unused_ip_smallest [OF h1 h2]
  obtain a where a: "find_unused_ip {168440321} ?S = Inr a" "a \<in> usable_hosts ?S - {168440321}"
    by blast
  then have "a = 168440322"
    by (auto simp add: usable_hosts_def b)
  with a h1 h2 show ?thesis by simp
qed




section \<open>The used addresses\<close>

lemma bind_Inr [simp]: "bind (Inr x) f = f x"
  by (simp add: bind_def)

lemma bind_Inl [simp]: "bind (Inl e) f = Inl e"
  by (simp add: bind_def)

lemma bind_eq_Inr: "bind m f = Inr y \<longleftrightarrow> (\<exists>x. m = Inr x \<and> f x = Inr y)"
  by (cases m) auto

lemma split_on_sep:
  "sep \<notin> set A \<Longrightarrow> split_on sep cur (A @ sep # rest) = (cur @ A) # split_on sep [] rest"
  by (induction A arbitrary: cur) auto

lemma split_on_plain: "sep \<notin> set A \<Longrightarrow> split_on sep cur A = [cur @ A]"
  by (induction A arbitrary: cur) auto

lemma host_part_of_entry:
  "CHR ''/'' \<notin> set A \<Longrightarrow> first_item (split_sep CHR ''/'' (A @ CHR ''/'' # p)) = Inr A"
  by (simp add: first_item_def split_sep_def split_on_sep)

lemma host_part_plain:
  "CHR ''/'' \<notin> set A \<Longrightarrow> first_item (split_sep CHR ''/'' A) = Inr A"
  by (simp add: first_item_def split_sep_def split_on_plain)

text \<open>
  Claim C10. An entry of the form \<open>A/p\<close> marks exactly the address that \<open>A\<close>
  parses to as used, whatever \<open>p\<close> is: the prefix length is cut off before the entry
  is parsed, and the used set holds single addresses, compared as such.
\<close>

theorem prefix_length_discarded:
  assumes "CHR ''/'' \<notin> set A"
  shows "ip_addresses ((A @ ''/'' @ p) # rest) =
           bind (ip_address A) (\<lambda>a. bind (ip_addresses rest) (\<lambda>used. Inr (insert a used)))"
  using assms by (simp add: host_part_of_entry)

lemmas ip_parse_defs =
  ip_address_def IPv4Address_of_def ip_int_from_string_def split_sep_def parse_octet_def
  isdigit_def int_of_digits_def

lemmas ip_network_defs =
  ip_network_def split_addr_prefix_def make_netmask_def prefix_from_prefix_string_def
  max_prefixlen_def ip_int_from_prefix_def ALL_ONES_def




text \<open>
  The text of an address determines the address, and every address that is parsed or
  enumerated is below \<open>2 ^ 32\<close>.
\<close>

lemma digit_char:
  assumes "d < 10"
  shows "of_char (''0123456789'' ! d) = (48 + d :: nat)"
    and "isdigit (''0123456789'' ! d)"
    and "''0123456789'' ! d \<noteq> CHR ''.''"
    and "CHR ''.'' \<noteq> ''0123456789'' ! d"
proof -
  from assms have "d = 0 \<or> d = 1 \<or> d = 2 \<or> d = 3 \<or> d = 4 \<or> d = 5 \<or> d = 6 \<or> d = 7
      \<or> d = 8 \<or> d = 9"
    by arith
  then show "of_char (''0123456789'' ! d) = (48 + d :: nat)"
    and "isdigit (''0123456789'' ! d)"
    and "''0123456789'' ! d \<noteq> CHR ''.''"
    and "CHR ''.'' \<noteq> ''0123456789'' ! d"
    by (auto simp add: isdigit_def)
qed

lemma str_nat_digits: "list_all isdigit (str_nat n) \<and> CHR ''.'' \<notin> set (str_nat n)"
proof (induction n rule: str_nat.induct)
  case (1 n)
  show ?case
  proof (cases "n < 10")
    case True
    then show ?thesis
      by (subst (1 2) str_nat.simps) (simp add: digit_char)
  next
    case False
    then have "n mod 10 < 10" by simp
    with 1 False show ?thesis
      by (subst (1 2) str_nat.simps) (simp add: digit_char)
  qed
qed

lemma int_of_digits_snoc:
  "int_of_digits (s @ [c]) = 10 * int_of_digits s + (of_char c - 48)"
  by (simp add: int_of_digits_def)

lemma int_of_digits_str_nat: "int_of_digits (str_nat n) = n"
proof (induction n rule: str_nat.induct)
  case (1 n)
  show ?case
  proof (cases "n < 10")
    case True
    then show ?thesis
      by (subst str_nat.simps) (simp add: int_of_digits_def digit_char)
  next
    case False
    then have "n mod 10 < 10" by simp
    with 1 False show ?thesis
      by (subst str_nat.simps) (simp add: int_of_digits_snoc digit_char)
  qed
qed

lemma split_dotted:
  assumes "CHR ''.'' \<notin> set a" "CHR ''.'' \<notin> set b" "CHR ''.'' \<notin> set c" "CHR ''.'' \<notin> set d"
  shows "split_sep CHR ''.'' (join ''.'' [a, b, c, d]) = [a, b, c, d]"
  using assms by (simp add: split_sep_def split_on_sep split_on_plain)

lemma bytes_compose:
  fixes x :: nat
  assumes "x < 4294967296"
  shows "x = 16777216 * (x div 16777216 mod 256) + (65536 * (x div 65536 mod 256)
           + (256 * (x div 256 mod 256) + x mod 256))"
proof -
  have a: "x mod 65536 = 256 * (x div 256 mod 256) + x mod 256"
    using mod_mult2_eq [of x 256 256] by simp
  have b: "x mod 16777216 = 65536 * (x div 65536 mod 256) + x mod 65536"
    using mod_mult2_eq [of x 65536 256] by simp
  have c: "x mod 4294967296 = 16777216 * (x div 16777216 mod 256) + x mod 16777216"
    using mod_mult2_eq [of x 16777216 256] by simp
  have d: "x mod 4294967296 = x"
    using assms by simp
  show ?thesis
    using a b c d by linarith
qed

lemma bytes_determine:
  fixes x y :: nat
  assumes "x < 4294967296" "y < 4294967296"
    and "x div 16777216 mod 256 = y div 16777216 mod 256"
    and "x div 65536 mod 256 = y div 65536 mod 256"
    and "x div 256 mod 256 = y div 256 mod 256"
    and "x mod 256 = y mod 256"
  shows "x = y"
  using bytes_compose [OF assms(1)] bytes_compose [OF assms(2)] assms(3-6) by linarith

lemma string_from_ip_int_inj:
  assumes "x < 4294967296" "y < 4294967296"
    and eq: "string_from_ip_int x = string_from_ip_int y"
  shows "x = y"
proof -
  let ?bytes = "\<lambda>n :: nat. [n div 16777216 mod 256, n div 65536 mod 256, n div 256 mod 256, n mod 256]"
  have s: "split_sep CHR ''.'' (string_from_ip_int n) = map str_nat (?bytes n)" for n
  proof -
    have "split_sep CHR ''.'' (join ''.'' [str_nat (n div 16777216 mod 256),
        str_nat (n div 65536 mod 256), str_nat (n div 256 mod 256), str_nat (n mod 256)])
      = [str_nat (n div 16777216 mod 256), str_nat (n div 65536 mod 256),
         str_nat (n div 256 mod 256), str_nat (n mod 256)]"
      by (rule split_dotted) (simp_all add: str_nat_digits)
    then show ?thesis
      by (simp add: string_from_ip_int_def del: join.simps)
  qed
  from eq have "split_sep CHR ''.'' (string_from_ip_int x)
      = split_sep CHR ''.'' (string_from_ip_int y)"
    by (rule arg_cong)
  then have "map str_nat (?bytes x) = map str_nat (?bytes y)"
    by (simp only: s)
  then have "map int_of_digits (map str_nat (?bytes x))
      = map int_of_digits (map str_nat (?bytes y))"
    by (rule arg_cong)
  then have "?bytes x = ?bytes y"
    by (simp only: list.map int_of_digits_str_nat)
  then have b: "x div 16777216 mod 256 = y div 16777216 mod 256"
    "x div 65536 mod 256 = y div 65536 mod 256"
    "x div 256 mod 256 = y div 256 mod 256" "x mod 256 = y mod 256"
    by (simp_all only: list.inject)
  show ?thesis
    by (rule bytes_determine [OF assms(1,2) b])
qed

lemma and_less_exp:
  fixes x y :: nat
  assumes "x < 2 ^ n"
  shows "x AND y < 2 ^ n"
proof -
  have "x AND y = take_bit n x AND y"
    using assms by (simp add: take_bit_nat_eq_self)
  also have "\<dots> = take_bit n (x AND y)"
    by (rule bit_eqI) (auto simp add: bit_and_iff bit_take_bit_iff)
  finally show ?thesis
    by (metis take_bit_nat_less_exp)
qed

lemma or_less_exp:
  fixes x y :: nat
  assumes "x < 2 ^ n" and "y < 2 ^ n"
  shows "x OR y < 2 ^ n"
proof -
  have "x OR y = take_bit n x OR take_bit n y"
    using assms by (simp add: take_bit_nat_eq_self)
  also have "\<dots> = take_bit n (x OR y)"
    by (simp add: take_bit_or)
  finally show ?thesis
    by (metis take_bit_nat_less_exp)
qed

lemma list4: "length xs = 4 \<Longrightarrow> \<exists>a b c d. xs = [a, b, c, d]"
  by (auto simp add: length_Suc_conv eval_nat_numeral)

lemma parse_octet_bound: "parse_octet s = Some b \<Longrightarrow> b \<le> 255"
  by (auto simp add: parse_octet_def Let_def split: if_splits)

lemma ip_int_from_string_bound:
  assumes "ip_int_from_string s = Some x"
  shows "x < 4294967296"
proof -
  from assms have len: "length (split_sep CHR ''.'' s) = 4"
    by (auto simp add: ip_int_from_string_def Let_def split: if_splits)
  then obtain a b c d where o: "split_sep CHR ''.'' s = [a, b, c, d]"
    using list4 by blast
  with assms obtain bs where bs: "those (map parse_octet [a, b, c, d]) = Some bs"
    and x: "x = foldl (\<lambda>acc b. 256 * acc + b) 0 bs"
    by (auto simp add: ip_int_from_string_def Let_def split: if_splits option.splits)
  from bs obtain b1 b2 b3 b4 where p: "parse_octet a = Some b1" "parse_octet b = Some b2"
    "parse_octet c = Some b3" "parse_octet d = Some b4" and l: "bs = [b1, b2, b3, b4]"
    by (auto split: option.splits)
  have "b1 \<le> 255" "b2 \<le> 255" "b3 \<le> 255" "b4 \<le> 255"
    using p parse_octet_bound by blast+
  then show ?thesis
    unfolding x l by simp
qed

lemma ip_address_bound: "ip_address s = Inr a \<Longrightarrow> a < 4294967296"
  by (auto simp add: ip_address_def IPv4Address_of_def ip_int_from_string_bound
      split: option.splits if_splits)

lemma ip_network_bound:
  assumes "ip_network s strict = Inr net"
  shows "network_address net < 4294967296"
proof -
  from assms obtain addr packed p where "IPv4Address_of addr = Some packed"
    and n: "network_address net = packed \<or> network_address net = packed AND ip_int_from_prefix p"
    by (auto simp add: ip_network_def Let_def split: option.splits if_splits prod.splits)
  then have "packed < 2 ^ 32"
    using ip_int_from_string_bound [of addr packed]
    by (auto simp add: IPv4Address_of_def split: if_splits)
  then show ?thesis
    using n and_less_exp [of packed 32 "ip_int_from_prefix p"] by auto
qed

lemma find_address_lines_bound:
  "find_address_lines config = Inr (net, a)
     \<Longrightarrow> a < 4294967296 \<and> network_address net < 4294967296"
proof (induction config)
  case Nil
  then show ?case by simp
next
  case (Cons line rest)
  show ?case
  proof (cases "startswith line ''Address''")
    case False
    with Cons show ?thesis by simp
  next
    case True
    with Cons.prems have "parse_address_line line = Inr (net, a)" by simp
    then obtain ip host where "ip_network ip False = Inr net" "ip_address host = Inr a"
      by (auto simp add: parse_address_line_def bind_eq_Inr)
    then show ?thesis
      using ip_network_bound ip_address_bound by blast
  qed
qed

lemma find_address_bound:
  "find_address fs interface_name = Inr (net, a)
     \<Longrightarrow> a < 4294967296 \<and> network_address net < 4294967296"
  by (auto simp add: find_address_def find_address_lines_bound split: option.splits)

lemma hosts_bound:
  assumes "network_address net < 4294967296" and "h \<in> set (hosts net)"
  shows "h < 4294967296"
proof -
  have "take_bit 32 (hostmask net) = hostmask net"
    by (simp add: hostmask_eq take_bit_of_mask)
  then have "hostmask net < 2 ^ 32"
    by (metis take_bit_nat_less_exp)
  then have "broadcast_address net < 2 ^ 32"
    using assms(1) or_less_exp [of "network_address net" 32 "hostmask net"]
    by (simp add: broadcast_address_def)
  then show ?thesis
    using assms by (auto simp add: hosts_def split: if_splits)
qed

lemma interface_address_reserved:
  assumes "find_address fs interface_name = Inr (net, a)"
    and "used_ips_of a wg_output = Inr U"
  shows "a \<in> U
       \<and> make_new_ip fs interface_name wg_output =
           bind (find_unused_ip U net) (\<lambda>new_ip. Inr (string_from_ip_int new_ip @ ''/32''))
       \<and> find_unused_ip U net \<noteq> Inr a
       \<and> make_new_ip fs interface_name wg_output \<noteq> Inr (string_from_ip_int a @ ''/32'')"
proof -
  from assms(2) obtain P where U: "U = insert a P"
    by (auto simp add: used_ips_of_def bind_eq_Inr)
  have never: "find_unused_ip U net \<noteq> Inr a"
    using first_unused_Inr [of U "hosts net" a] U by (auto simp add: find_unused_ip_def)
  have m: "make_new_ip fs interface_name wg_output =
           bind (find_unused_ip U net) (\<lambda>new_ip. Inr (string_from_ip_int new_ip @ ''/32''))"
    using assms by (simp add: make_new_ip_def)
  have "make_new_ip fs interface_name wg_output \<noteq> Inr (string_from_ip_int a @ ''/32'')"
  proof
    assume "make_new_ip fs interface_name wg_output = Inr (string_from_ip_int a @ ''/32'')"
    then obtain new_ip where n: "find_unused_ip U net = Inr new_ip"
      and s: "string_from_ip_int new_ip = string_from_ip_int a"
      unfolding m by (auto simp add: bind_eq_Inr)
    from n have "new_ip \<in> set (hosts net)"
      using first_unused_Inr [of U "hosts net" new_ip] by (simp add: find_unused_ip_def)
    then have "new_ip < 4294967296"
      using hosts_bound find_address_bound [OF assms(1)] by blast
    then have "new_ip = a"
      using string_from_ip_int_inj [OF _ _ s] find_address_bound [OF assms(1)] by blast
    with n never show False by simp
  qed
  then show ?thesis
    using never m U by auto
qed

lemma first_unused_upt:
  "i < j \<Longrightarrow> first_unused U [i..<j] = (if i \<notin> U then Inr i else first_unused U [Suc i..<j])"
  by (simp add: upt_rec)

lemma hostmask_24: "prefixlen S = 24 \<Longrightarrow> hostmask S = 255"
  by (simp add: hostmask_eq mask_eq_exp_minus_1)

lemma ex_find_address:
  "find_address
     (\<lambda>p. if p = ''/etc/wireguard/wg0.conf''
          then Some [''[Interface]\<newline>'', ''Address = 10.10.50.1/24\<newline>'', ''ListenPort = 51820\<newline>'']
          else None) ''wg0''
   = Inr (\<lparr>network_address = 168440320, prefixlen = 24\<rparr>, 168440321)"
  by (simp add: find_address_def startswith_def parse_address_line_def last_item_def
      first_item_def split_def isspace_def ip_parse_defs ip_network_defs)

lemma ex_find_unused_ip:
  "find_unused_ip {168440321, 168440322, 168440323} \<lparr>network_address = 168440320, prefixlen = 24\<rparr>
     = Inr 168440324"
  by (simp add: find_unused_ip_def hosts_def max_prefixlen_def broadcast_address_def hostmask_24
      first_unused_upt del: upt_rec_numeral)

text \<open>
  Claim C3. Scenario A: the interface is configured with \<open>10.10.50.1/24\<close>, the peers
  hold \<open>10.10.50.2/32\<close> and \<open>10.10.50.3/32\<close>, and \<open>make_new_ip\<close> returns
  \<open>10.10.50.4/32\<close>.
\<close>

theorem scenario_A:
  "make_new_ip
     (\<lambda>p. if p = ''/etc/wireguard/wg0.conf''
          then Some [''[Interface]\<newline>'', ''Address = 10.10.50.1/24\<newline>'', ''ListenPort = 51820\<newline>'']
          else None)
     ''wg0''
     [''interface: wg0'', ''public key: c2VydmVyLXB1YmxpYy1rZXk='', ''listening port: 51820'',
      ''peer: cGVlci1vbmU='', ''allowed ips: 10.10.50.2/32'',
      ''peer: cGVlci10d28='', ''allowed ips: 10.10.50.3/32'']
   = Inr ''10.10.50.4/32''"
proof -
  have ips: "find_using_ips
     [''interface: wg0'', ''public key: c2VydmVyLXB1YmxpYy1rZXk='', ''listening port: 51820'',
      ''peer: cGVlci1vbmU='', ''allowed ips: 10.10.50.2/32'',
      ''peer: cGVlci10d28='', ''allowed ips: 10.10.50.3/32'']
     = Inr [''10.10.50.2/32'', ''10.10.50.3/32'']"
    by (simp add: startswith_def last_item_def split_def isspace_def)
  have used: "ip_addresses [''10.10.50.2/32'', ''10.10.50.3/32''] = Inr {168440322, 168440323}"
    by (simp add: first_item_def ip_parse_defs)
  have str: "string_from_ip_int 168440324 = ''10.10.50.4''"
    by (simp add: string_from_ip_int_def str_nat.simps)
  show ?thesis
    by (simp only: make_new_ip_def ex_find_address used_ips_of_def ips used bind_Inr
        prod.case ex_find_unused_ip str append.simps)
qed

text \<open>
  Claim C4 fails on a status line that lists two addresses for one peer. The peer holds
  \<open>10.10.50.2\<close> and \<open>10.10.50.9\<close>; \<open>find_using_ips\<close> keeps only the last
  field of the line, so the used set is the interface's address and \<open>10.10.50.9\<close>, not
  the union of the peers' allowed addresses, and \<open>make_new_ip\<close> hands out
  \<open>10.10.50.2\<close>, which the peer holds. The interface's own address is a member of the
  used set in every run, as \<open>interface_address_reserved\<close> shows.
\<close>

theorem several_addresses_on_one_line:
  "used_ips_of 168440321
     [''interface: wg0'', ''peer: cGVlci1vbmU='', ''allowed ips: 10.10.50.2/32, 10.10.50.9/32'']
     = Inr {168440321, 168440329}
   \<and> peers_allowed_addresses
       [''interface: wg0'', ''peer: cGVlci1vbmU='', ''allowed ips: 10.10.50.2/32, 10.10.50.9/32'']
       = {168440322, 168440329}
   \<and> make_new_ip
       (\<lambda>p. if p = ''/etc/wireguard/wg0.conf''
            then Some [''[Interface]\<newline>'', ''Address = 10.10.50.1/24\<newline>'', ''ListenPort = 51820\<newline>'']
            else None)
       ''wg0''
       [''interface: wg0'', ''peer: cGVlci1vbmU='', ''allowed ips: 10.10.50.2/32, 10.10.50.9/32'']
       = Inr ''10.10.50.2/32''"
proof -
  let ?wg = "[''interface: wg0'', ''peer: cGVlci1vbmU='',
              ''allowed ips: 10.10.50.2/32, 10.10.50.9/32'']"
  have ips: "find_using_ips ?wg = Inr [''10.10.50.9/32'']"
    by (simp add: startswith_def last_item_def split_def isspace_def)
  have used: "ip_addresses [''10.10.50.9/32''] = Inr {168440329}"
    by (simp add: first_item_def ip_parse_defs)
  have u: "used_ips_of 168440321 ?wg = Inr {168440321, 168440329}"
    by (simp only: used_ips_of_def ips used bind_Inr)
  have f: "allowed_fields ''allowed ips: 10.10.50.2/32, 10.10.50.9/32''
      = [''10.10.50.2/32'', ''10.10.50.9/32'']"
    by (simp add: allowed_fields_def split_def isspace_def split_sep_def)
  have a2: "field_address ''10.10.50.2/32'' = {168440322}"
    by (simp add: field_address_def first_item_def ip_parse_defs)
  have a9: "field_address ''10.10.50.9/32'' = {168440329}"
    by (simp add: field_address_def first_item_def ip_parse_defs)
  have l: "line_allowed_addresses ''allowed ips: 10.10.50.2/32, 10.10.50.9/32''
      = {168440322, 168440329}"
    by (auto simp add: line_allowed_addresses_def f a2 a9 startswith_def)
  have n1: "line_allowed_addresses ''interface: wg0'' = {}"
    by (simp add: line_allowed_addresses_def startswith_def)
  have n2: "line_allowed_addresses ''peer: cGVlci1vbmU='' = {}"
    by (simp add: line_allowed_addresses_def startswith_def)
  have p: "peers_allowed_addresses ?wg = {168440322, 168440329}"
    by (auto simp add: peers_allowed_addresses_def l n1 n2)
  have free: "find_unused_ip {168440321, 168440329}
      \<lparr>network_address = 168440320, prefixlen = 24\<rparr> = Inr 168440322"
    by (simp add: find_unused_ip_def hosts_def max_prefixlen_def broadcast_address_def hostmask_24
        first_unused_upt del: upt_rec_numeral)
  have str: "string_from_ip_int 168440322 = ''10.10.50.2''"
    by (simp add: string_from_ip_int_def str_nat.simps)
  have m: "make_new_ip
       (\<lambda>p. if p = ''/etc/wireguard/wg0.conf''
            then Some [''[Interface]\<newline>'', ''Address = 10.10.50.1/24\<newline>'', ''ListenPort = 51820\<newline>'']
            else None)
       ''wg0'' ?wg = Inr ''10.10.50.2/32''"
    by (simp only: make_new_ip_def ex_find_address u bind_Inr prod.case free str append.simps)
  from u p m show ?thesis
    by (intro conjI) assumption+
qed

theorem prefix_length_discarded_witness:
  "CHR ''/'' \<notin> set ''10.10.50.2''
   \<and> ip_addresses [''10.10.50.2/24''] = Inr {168440322}
   \<and> find_unused_ip {168440321, 168440322} \<lparr>network_address = 168440320, prefixlen = 24\<rparr>
       = Inr 168440323"
proof -
  have h: "CHR ''/'' \<notin> set ''10.10.50.2''" by simp
  have a: "ip_address ''10.10.50.2'' = Inr 168440322"
    by (simp add: ip_parse_defs)
  have "ip_addresses [''10.10.50.2/24''] = Inr {168440322}"
    using prefix_length_discarded [OF h, of "''24''" "[]"] a by simp
  moreover have "find_unused_ip {168440321, 168440322}
      \<lparr>network_address = 168440320, prefixlen = 24\<rparr> = Inr 168440323"
    by (simp add: find_unused_ip_def hosts_def max_prefixlen_def broadcast_address_def hostmask_24
        first_unused_upt del: upt_rec_numeral)
  ultimately show ?thesis using h by simp
qed

section \<open>The status parser\<close>








section \<open>The subnet resolver\<close>

lemma find_address_lines_missing:
  "\<forall>l \<in> set config. \<not> startswith l ''Address''
     \<Longrightarrow> find_address_lines config = Inl AddressDirectiveMissing"
  by (induction config) auto

lemma find_address_lines_first:
  "\<forall>l \<in> set pre. \<not> startswith l ''Address'' \<Longrightarrow> startswith line ''Address''
     \<Longrightarrow> find_address_lines (pre @ line # post) = parse_address_line line"
  by (induction pre) auto

lemma isdigit_not_slash: "list_all isdigit P \<Longrightarrow> CHR ''/'' \<notin> set P"
  by (auto simp add: list_all_iff isdigit_def)

lemma ip_network_cidr:
  assumes "IPv4Address_of A = Some x" and "prefix_from_prefix_string P = Some p"
  shows "ip_network (A @ CHR ''/'' # P) False =
           Inr \<lparr>network_address = x AND ip_int_from_prefix p, prefixlen = p\<rparr>"
proof -
  have A: "CHR ''/'' \<notin> set A"
    using assms(1) by (auto simp add: IPv4Address_of_def split: if_splits)
  have P: "CHR ''/'' \<notin> set P"
    using assms(2) isdigit_not_slash [of P]
    by (auto simp add: prefix_from_prefix_string_def split: if_splits)
  have "split_sep CHR ''/'' (A @ CHR ''/'' # P) = [A, P]"
    using A P by (simp add: split_sep_def split_on_sep split_on_plain)
  then have "split_addr_prefix (A @ CHR ''/'' # P) = Some (A, Some P)"
    by (simp add: split_addr_prefix_def)
  then show ?thesis
    using assms by (simp add: ip_network_def make_netmask_def Let_def)
qed

lemma parse_address_line_cidr:
  assumes "last_item (split line) = Inr (A @ CHR ''/'' # P)"
    and "IPv4Address_of A = Some x" and "prefix_from_prefix_string P = Some p"
  shows "parse_address_line line =
           Inr (\<lparr>network_address = x AND ip_int_from_prefix p, prefixlen = p\<rparr>, x)"
proof -
  have A: "CHR ''/'' \<notin> set A"
    using assms(2) by (auto simp add: IPv4Address_of_def split: if_splits)
  show ?thesis
    using assms A
    by (simp add: parse_address_line_def ip_network_cidr host_part_of_entry ip_address_def)
qed

text \<open>
  Claim C6. When the configuration file exists: if no line starts with \<open>Address\<close>,
  \<open>find_address\<close> fails with \<open>AddressDirectiveMissing\<close>; otherwise it parses the
  first such line and no other. When the last field of that line is \<open>A/P\<close>, with
  \<open>A\<close> an address and \<open>P\<close> a prefix length, the result is the network of that
  prefix length with the host bits of \<open>A\<close> cleared, and the address \<open>A\<close> itself.
\<close>

theorem find_address_first_directive:
  assumes "fs (''/etc/wireguard/'' @ interface_name @ ''.conf'') = Some config"
  shows "((\<forall>l \<in> set config. \<not> startswith l ''Address'') \<longrightarrow>
            find_address fs interface_name = Inl AddressDirectiveMissing)
       \<and> (config = pre @ line # post \<and> (\<forall>l \<in> set pre. \<not> startswith l ''Address'')
            \<and> startswith line ''Address'' \<longrightarrow>
            find_address fs interface_name = parse_address_line line
            \<and> (last_item (split line) = Inr (A @ ''/'' @ P) \<and> IPv4Address_of A = Some x
                 \<and> prefix_from_prefix_string P = Some p \<longrightarrow>
               find_address fs interface_name =
                 Inr (\<lparr>network_address = x AND ip_int_from_prefix p, prefixlen = p\<rparr>, x)))"
  using assms
  by (auto simp add: find_address_def find_address_lines_missing find_address_lines_first
      parse_address_line_cidr)

theorem find_address_first_directive_witness:
  "find_address
     (\<lambda>p. if p = ''/etc/wireguard/wg0.conf''
          then Some [''[Interface]\<newline>'', ''ListenPort = 51820\<newline>''] else None) ''wg0''
     = Inl AddressDirectiveMissing
   \<and> startswith ''Address = 10.10.50.1/24\<newline>'' ''Address''
   \<and> last_item (split ''Address = 10.10.50.1/24\<newline>'') = Inr ''10.10.50.1/24''
   \<and> IPv4Address_of ''10.10.50.1'' = Some 168440321
   \<and> prefix_from_prefix_string ''24'' = Some 24
   \<and> find_address
       (\<lambda>p. if p = ''/etc/wireguard/wg0.conf''
            then Some [''[Interface]\<newline>'', ''Address = 10.10.50.1/24\<newline>'',
                       ''Address = 10.9.0.1/16\<newline>'']
            else None) ''wg0''
       = Inr (\<lparr>network_address = 168440320, prefixlen = 24\<rparr>, 168440321)
   \<and> ip_network ''10.10.50.1/24'' True = Inl ValueError"
proof -
  let ?fs1 = "\<lambda>p. if p = ''/etc/wireguard/wg0.conf''
          then Some [''[Interface]\<newline>'', ''ListenPort = 51820\<newline>''] else None"
  let ?fs2 = "\<lambda>p. if p = ''/etc/wireguard/wg0.conf''
            then Some [''[Interface]\<newline>'', ''Address = 10.10.50.1/24\<newline>'',
                       ''Address = 10.9.0.1/16\<newline>'']
            else None"
  have f1: "?fs1 (''/etc/wireguard/'' @ ''wg0'' @ ''.conf'')
      = Some [''[Interface]\<newline>'', ''ListenPort = 51820\<newline>'']"
    by simp
  have n1: "\<forall>l \<in> set [''[Interface]\<newline>'', ''ListenPort = 51820\<newline>'']. \<not> startswith l ''Address''"
    by (simp add: startswith_def)
  have a: "find_address ?fs1 ''wg0'' = Inl AddressDirectiveMissing"
    using find_address_first_directive [of ?fs1 "''wg0''", OF f1] n1 by blast
  have f2: "?fs2 (''/etc/wireguard/'' @ ''wg0'' @ ''.conf'')
      = Some [''[Interface]\<newline>'', ''Address = 10.10.50.1/24\<newline>'', ''Address = 10.9.0.1/16\<newline>'']"
    by simp
  have c2: "[''[Interface]\<newline>'', ''Address = 10.10.50.1/24\<newline>'', ''Address = 10.9.0.1/16\<newline>'']
      = [''[Interface]\<newline>''] @ ''Address = 10.10.50.1/24\<newline>'' # [''Address = 10.9.0.1/16\<newline>'']"
    by simp
  have n2: "\<forall>l \<in> set [''[Interface]\<newline>'']. \<not> startswith l ''Address''"
    by (simp add: startswith_def)
  have s2: "startswith ''Address = 10.10.50.1/24\<newline>'' ''Address''"
    by (simp add: startswith_def)
  have l2: "last_item (split ''Address = 10.10.50.1/24\<newline>'') = Inr (''10.10.50.1'' @ ''/'' @ ''24'')"
    by (simp add: last_item_def split_def isspace_def)
  have x: "IPv4Address_of ''10.10.50.1'' = Some 168440321"
    by (simp add: ip_parse_defs)
  have p: "prefix_from_prefix_string ''24'' = Some 24"
    by (simp add: prefix_from_prefix_string_def isdigit_def int_of_digits_def max_prefixlen_def)
  have m: "(168440321 :: nat) AND ip_int_from_prefix 24 = 168440320"
    by (simp add: ip_int_from_prefix_def ALL_ONES_def)
  have "find_address ?fs2 ''wg0''
      = Inr (\<lparr>network_address = 168440321 AND ip_int_from_prefix 24, prefixlen = 24\<rparr>, 168440321)"
    using find_address_first_directive [of ?fs2 "''wg0''", OF f2] c2 n2 s2 l2 x p by blast
  then have b: "find_address ?fs2 ''wg0''
      = Inr (\<lparr>network_address = 168440320, prefixlen = 24\<rparr>, 168440321)"
    by (simp only: m)
  have l2': "last_item (split ''Address = 10.10.50.1/24\<newline>'') = Inr ''10.10.50.1/24''"
    using l2 by simp
  have st: "ip_network ''10.10.50.1/24'' True = Inl ValueError"
    by (simp add: ip_parse_defs ip_network_defs)
  from a s2 l2' x p b st show ?thesis
    by (intro conjI) assumption+
qed

section \<open>The pipeline\<close>

lemmas io_defs =
  io_bind_def io_return_def io_raise_def emit_def lift_def check_output_def call_def

lemmas step_defs =
  get_wg_show_output_def get_user_def gen_private_key_def gen_public_key_def
  make_configs_def make_qr_code_def insert_new_peer_def save_new_config_def

lemma example_lines:
  "wg_show_lines example_status =
     [''interface: wg0'', ''public key: c2VydmVyLXB1YmxpYy1rZXk='', ''listening port: 51820'',
      ''peer: cGVlci1vbmU='', ''allowed ips: 10.10.50.2/32'']"
  by (simp add: wg_show_lines_def example_status_def split_sep_def strip_def isspace_def)

lemma example_interface:
  "find_interface (wg_show_lines example_status) = Inr ''wg0''"
  by (simp add: example_lines startswith_def last_item_def split_def isspace_def)

lemma example_public_key:
  "find_server_public_key (wg_show_lines example_status) = Inr ''c2VydmVyLXB1YmxpYy1rZXk=''"
  by (simp add: example_lines startswith_def last_item_def split_def isspace_def)

lemma example_using_ips:
  "find_using_ips (wg_show_lines example_status) = Inr [''10.10.50.2/32'']"
  by (simp add: example_lines startswith_def last_item_def split_def isspace_def)

lemma example_ip_addresses: "ip_addresses [''10.10.50.2/32''] = Inr {168440322}"
  by (simp add: first_item_def ip_parse_defs)

lemma example_address_24:
  "find_address (example_conf ''Address = 10.10.50.1/24\<newline>'') ''wg0''
     = Inr (\<lparr>network_address = 168440320, prefixlen = 24\<rparr>, 168440321)"
  by (simp add: example_conf_def find_address_def startswith_def parse_address_line_def
      last_item_def first_item_def split_def isspace_def ip_parse_defs ip_network_defs)

lemma example_address_30:
  "find_address (example_conf ''Address = 10.10.50.1/30\<newline>'') ''wg0''
     = Inr (\<lparr>network_address = 168440320, prefixlen = 30\<rparr>, 168440321)"
  by (simp add: example_conf_def find_address_def startswith_def parse_address_line_def
      last_item_def first_item_def split_def isspace_def ip_parse_defs ip_network_defs)

lemma example_new_ip_24:
  "make_new_ip (example_conf ''Address = 10.10.50.1/24\<newline>'') ''wg0''
     (wg_show_lines example_status) = Inr ''10.10.50.3/32''"
proof -
  have "find_unused_ip {168440321, 168440322}
      \<lparr>network_address = 168440320, prefixlen = 24\<rparr> = Inr 168440323"
    by (simp add: find_unused_ip_def hosts_def max_prefixlen_def broadcast_address_def hostmask_24
        first_unused_upt del: upt_rec_numeral)
  moreover have "string_from_ip_int 168440323 = ''10.10.50.3''"
    by (simp add: string_from_ip_int_def str_nat.simps)
  ultimately show ?thesis
    by (simp only: make_new_ip_def example_address_24 used_ips_of_def example_using_ips
        example_ip_addresses bind_Inr prod.case append.simps)
qed

lemma example_new_ip_30:
  "make_new_ip (example_conf ''Address = 10.10.50.1/30\<newline>'') ''wg0''
     (wg_show_lines example_status) = Inl PoolExhausted"
proof -
  have "find_unused_ip {168440321, 168440322}
      \<lparr>network_address = 168440320, prefixlen = 30\<rparr> = Inl PoolExhausted"
    by (simp add: find_unused_ip_def hosts_def max_prefixlen_def broadcast_address_def hostmask_30
        first_unused_upt del: upt_rec_numeral)
  then show ?thesis
    by (simp only: make_new_ip_def example_address_30 used_ips_of_def example_using_ips
        example_ip_addresses bind_Inr bind_Inl prod.case)
qed

lemma strip_examples:
  "strip ''alice'' = ''alice''"
  "strip ''cHJpdmF0ZS1rZXk=\<newline>'' = ''cHJpdmF0ZS1rZXk=''"
  "strip ''cHVibGljLWtleQ==\<newline>'' = ''cHVibGljLWtleQ==''"
  by (simp_all add: strip_def isspace_def)

lemma example_prelude:
  "get_wg_show_output (example_world example_status al st) []
     = (Inr (wg_show_lines example_status), [Run [''wg'', ''show'']])"
  "get_user (example_world example_status al st) tr = (Inr ''alice'', tr @ [Prompt ''Enter Username: ''])"
  "gen_private_key (example_world example_status al st) tr
     = (Inr ''cHJpdmF0ZS1rZXk='', tr @ [Run [''wg'', ''genkey'']])"
  "gen_public_key (example_world example_status al st) k tr
     = (Inr ''cHVibGljLWtleQ=='', tr @ [Run [''echo'', k], Run [''wg'', ''pubkey'']])"
  by (simp_all add: step_defs io_defs example_world_def example_lines strip_examples)

lemma example_config_text:
  "make_new_config_file ''10.10.50.3/32'' ''cHJpdmF0ZS1rZXk='' ''c2VydmVyLXB1YmxpYy1rZXk=''
     = ''[Interface]\<newline>Address = 10.10.50.3/32\<newline>PrivateKey = cHJpdmF0ZS1rZXk=\<newline>DNS = 1.1.1.1\<newline>\<newline>[Peer]\<newline>PublicKey = c2VydmVyLXB1YmxpYy1rZXk=\<newline>AllowedIPs = 0.0.0.0/0\<newline>Endpoint = <URI>:<PORT>''"
  by (simp add: make_new_config_file_def DNS_def ADDRESS_def)

lemma example_run:
  "main (example_world example_status ''Address = 10.10.50.1/24\<newline>'' st) [] =
     (if st = 0 then Inr () else Inl RegistrationFailed,
      [Run [''wg'', ''show''], Prompt ''Enter Username: '', Run [''wg'', ''genkey''],
       Run [''echo'', ''cHJpdmF0ZS1rZXk=''], Run [''wg'', ''pubkey''],
       Mkdir ''alice'', Chdir ''alice'',
       WriteFile ''alice.conf''
         (make_new_config_file ''10.10.50.3/32'' ''cHJpdmF0ZS1rZXk='' ''c2VydmVyLXB1YmxpYy1rZXk=''),
       Shell ''qrencode -o alice.png < alice.conf'',
       Run [''wg'', ''set'', ''wg0'', ''peer'', ''cHVibGljLWtleQ=='', ''allowed-ips'',
            ''10.10.50.3/32'']]
      @ (if st = 0 then [Run [''wg-quick'', ''save'', ''wg0'']] else []))"
proof -
  let ?w = "example_world example_status ''Address = 10.10.50.1/24\<newline>'' st"
  have f: "etc_files ?w = example_conf ''Address = 10.10.50.1/24\<newline>''"
    "mkdir_ok ?w ''alice''" "write_ok ?w ''alice.conf''" "wg_set_status ?w = st"
    "wg_quick_save_status ?w = 0"
    by (simp_all add: example_world_def)
  show ?thesis
    unfolding main_def
    by (simp add: io_bind_def lift_def example_prelude example_interface example_public_key
        example_new_ip_24 f make_configs_def make_qr_code_def insert_new_peer_def
        save_new_config_def call_def emit_def io_return_def io_raise_def)
qed

lemma find_interface_missing:
  "\<forall>l \<in> set ls. \<not> startswith l ''interface: '' \<Longrightarrow> find_interface ls = Inl InterfaceNotFound"
  by (induction ls) auto

text \<open>
  Claim C8, as stated, fails on the empty status output: it has no line that starts
  with \<open>interface: \<close>, and the run fails with \<open>StatusUnavailable\<close>, because
  \<open>get_wg_show_output\<close> asserts that there is a line before any line is searched.
\<close>

theorem empty_status_counterexample:
  "wg_show_lines [] = []
   \<and> find_interface (wg_show_lines []) = Inl InterfaceNotFound
   \<and> main (example_world [] ''Address = 10.10.50.1/24\<newline>'' 0) []
       = (Inl StatusUnavailable, [Run [''wg'', ''show'']])"
  by (simp add: wg_show_lines_def split_sep_def main_def get_wg_show_output_def io_defs
      example_world_def)

text \<open>
  Claim C8, amended. When the status output has at least one non-empty line and none of
  its lines starts with \<open>interface: \<close>, the run fails with \<open>InterfaceNotFound\<close>,
  and the status query is the only thing it has done.
\<close>

theorem interface_missing_stops_run:
  assumes "wg_show_stdout w = Some raw" and "wg_show_lines raw \<noteq> []"
    and "\<forall>l \<in> set (wg_show_lines raw). \<not> startswith l ''interface: ''"
  shows "main w [] = (Inl InterfaceNotFound, [Run [''wg'', ''show'']])"
  using assms find_interface_missing [of "wg_show_lines raw"]
  by (simp add: main_def get_wg_show_output_def io_defs)

theorem interface_missing_stops_run_witness:
  "wg_show_stdout (example_world ''peer: cGVlci1vbmU=\<newline>  allowed ips: 10.10.50.2/32\<newline>''
       ''Address = 10.10.50.1/24\<newline>'' 0)
     = Some ''peer: cGVlci1vbmU=\<newline>  allowed ips: 10.10.50.2/32\<newline>''
   \<and> wg_show_lines ''peer: cGVlci1vbmU=\<newline>  allowed ips: 10.10.50.2/32\<newline>''
       = [''peer: cGVlci1vbmU='', ''allowed ips: 10.10.50.2/32'']
   \<and> main (example_world ''peer: cGVlci1vbmU=\<newline>  allowed ips: 10.10.50.2/32\<newline>''
       ''Address = 10.10.50.1/24\<newline>'' 0) []
       = (Inl InterfaceNotFound, [Run [''wg'', ''show'']])"
proof -
  let ?raw = "''peer: cGVlci1vbmU=\<newline>  allowed ips: 10.10.50.2/32\<newline>''"
  let ?w = "example_world ?raw ''Address = 10.10.50.1/24\<newline>'' 0"
  have h1: "wg_show_stdout ?w = Some ?raw" by (simp add: example_world_def)
  have l: "wg_show_lines ?raw = [''peer: cGVlci1vbmU='', ''allowed ips: 10.10.50.2/32'']"
    by (simp add: wg_show_lines_def split_sep_def strip_def isspace_def)
  have h2: "wg_show_lines ?raw \<noteq> []" by (simp add: l)
  have h3: "\<forall>l \<in> set (wg_show_lines ?raw). \<not> startswith l ''interface: ''"
    by (simp add: l startswith_def)
  from interface_missing_stops_run [OF h1 h2 h3] h1 l show ?thesis
    by (intro conjI) assumption+
qed

text \<open>
  Claim C7. When \<open>wg set\<close> exits non-zero, the save command is not run, and a run
  that reaches the registration fails with \<open>RegistrationFailed\<close>. In every run that
  does save, \<open>wg set\<close> has exited with status 0, the save is the last event and the
  registration is the event before it.
\<close>

theorem registration_gates_persist:
  "(wg_set_status w \<noteq> 0 \<longrightarrow>
      \<not> list_ex is_persist (snd (main w []))
      \<and> (list_ex is_registration (snd (main w [])) \<longrightarrow> fst (main w []) = Inl RegistrationFailed))
   \<and> (list_ex is_persist (snd (main w [])) \<longrightarrow>
        wg_set_status w = 0 \<and> is_persist (last (snd (main w [])))
        \<and> is_registration (last (butlast (snd (main w [])))))"
  by (auto simp add: main_def step_defs io_defs Let_def
      split: sum.splits option.splits if_splits prod.splits)

theorem registration_gates_persist_witness:
  "wg_set_status (example_world example_status ''Address = 10.10.50.1/24\<newline>'' 1) \<noteq> 0
   \<and> list_ex is_registration (snd (main (example_world example_status ''Address = 10.10.50.1/24\<newline>'' 1) []))
   \<and> fst (main (example_world example_status ''Address = 10.10.50.1/24\<newline>'' 1) []) = Inl RegistrationFailed
   \<and> \<not> list_ex is_persist (snd (main (example_world example_status ''Address = 10.10.50.1/24\<newline>'' 1) []))
   \<and> list_ex is_persist (snd (main (example_world example_status ''Address = 10.10.50.1/24\<newline>'' 0) []))
   \<and> wg_set_status (example_world example_status ''Address = 10.10.50.1/24\<newline>'' 0) = 0
   \<and> last (snd (main (example_world example_status ''Address = 10.10.50.1/24\<newline>'' 0) []))
       = Run [''wg-quick'', ''save'', ''wg0'']"
proof -
  let ?w1 = "example_world example_status ''Address = 10.10.50.1/24\<newline>'' 1"
  let ?w0 = "example_world example_status ''Address = 10.10.50.1/24\<newline>'' 0"
  have s1: "wg_set_status ?w1 \<noteq> 0" by (simp add: example_world_def)
  have r1: "list_ex is_registration (snd (main ?w1 []))"
    by (simp add: example_run)
  have p0: "list_ex is_persist (snd (main ?w0 []))"
    by (simp add: example_run)
  have l0: "last (snd (main ?w0 [])) = Run [''wg-quick'', ''save'', ''wg0'']"
    by (simp add: example_run)
  from registration_gates_persist [of ?w1] s1 r1
  have a: "fst (main ?w1 []) = Inl RegistrationFailed"
    and b: "\<not> list_ex is_persist (snd (main ?w1 []))"
    by blast+
  from registration_gates_persist [of ?w0] p0
  have c: "wg_set_status ?w0 = 0" by blast
  from s1 r1 a b p0 c l0 show ?thesis
    by (intro conjI) assumption+
qed

text \<open>
  Claim C9. In a run that reaches the allocation and finds every candidate address
  used, the result is \<open>PoolExhausted\<close>, and the trace holds no artifact, no
  registration and no save: only the status query, the prompt and the key commands.
\<close>

theorem pool_exhausted_no_side_effect:
  assumes "get_wg_show_output w [] = (Inr wg_show_output, tr1)"
    and "find_interface wg_show_output = Inr interface_name"
    and "find_server_public_key wg_show_output = Inr server_public_key"
    and "get_user w tr1 = (Inr username, tr2)"
    and "gen_private_key w tr2 = (Inr private_key, tr3)"
    and "gen_public_key w private_key tr3 = (Inr public_key, tr4)"
    and "make_new_ip (etc_files w) interface_name wg_show_output = Inl PoolExhausted"
  shows "main w [] = (Inl PoolExhausted, tr4) \<and> filter side_effect tr4 = []"
proof -
  have "main w [] = (Inl PoolExhausted, tr4)"
    using assms by (simp add: main_def io_bind_def lift_def)
  moreover have "filter side_effect tr4 = []"
    using assms(1,4,5,6)
    by (auto simp add: step_defs io_defs Let_def side_effect_def
        split: sum.splits option.splits if_splits prod.splits)
  ultimately show ?thesis by simp
qed

theorem pool_exhausted_no_side_effect_witness:
  "make_new_ip (example_conf ''Address = 10.10.50.1/30\<newline>'') ''wg0''
     (wg_show_lines example_status) = Inl PoolExhausted
   \<and> main (example_world example_status ''Address = 10.10.50.1/30\<newline>'' 0) []
       = (Inl PoolExhausted,
          [Run [''wg'', ''show''], Prompt ''Enter Username: '', Run [''wg'', ''genkey''],
           Run [''echo'', ''cHJpdmF0ZS1rZXk=''], Run [''wg'', ''pubkey'']])"
proof -
  let ?w = "example_world example_status ''Address = 10.10.50.1/30\<newline>'' 0"
  have e: "make_new_ip (etc_files ?w) ''wg0'' (wg_show_lines example_status) = Inl PoolExhausted"
    using example_new_ip_30 by (simp add: example_world_def)
  from pool_exhausted_no_side_effect
    [OF example_prelude(1) example_interface example_public_key example_prelude(2)
        example_prelude(3) example_prelude(4) e]
  have "main ?w [] = (Inl PoolExhausted,
          [Run [''wg'', ''show''], Prompt ''Enter Username: '', Run [''wg'', ''genkey''],
           Run [''echo'', ''cHJpdmF0ZS1rZXk=''], Run [''wg'', ''pubkey'']])"
    by simp
  with example_new_ip_30 show ?thesis
    by (intro conjI) assumption+
qed

end
